theory Spec2Isabelle
  imports Main "HOL-Library.Word"
begin

unbundle bit_operations_syntax

section \<open>The wave file header of \<open>src/wavhdr.h\<close>\<close>

subsection \<open>The record \<open>wavHeader_t\<close>\<close>

text \<open>
  The fixed-width integer types of \<open>inttypes.h\<close> are words of that width. A member
  declared \<open>uint8_t X[4]\<close> holds exactly four bytes: \<open>at0\<close> is \<open>X[0]\<close>, \<open>at3\<close> is \<open>X[3]\<close>.
\<close>

type_synonym uint8_t = "8 word"
type_synonym uint16_t = "16 word"
type_synonym uint32_t = "32 word"

datatype bytes4 = Bytes4 (at0: uint8_t) (at1: uint8_t) (at2: uint8_t) (at3: uint8_t)

record wavHeader =
  RIFF :: bytes4
  ChunkSize :: uint32_t
  WAVE :: bytes4
  fmt :: bytes4
  Subchunk1Size :: uint32_t
  AudioFormat :: uint16_t
  NumOfChan :: uint16_t
  SamplesPerSec :: uint32_t
  bytesPerSec :: uint32_t
  blockAlign :: uint16_t
  bitsPerSample :: uint16_t
  Subchunk2ID :: bytes4
  Subchunk2Size :: uint32_t

subsection \<open>Values of C expressions\<close>

text \<open>
  An expression of C either has a value or its behaviour is undefined. \<open>Fault\<close> is the
  explicit error result that the specification asks of the sample count; it is part of
  the type so that the question whether an evaluation reports one can be asked.
\<close>

datatype error_kind = DivisionByZero | InvalidHeader | TruncatedInput | InvalidMagic

datatype 'a outcome =
    is_Value: Value (the_value: 'a)
  | is_Fault: Fault error_kind
  | is_Undefined: Undefined

fun and_then :: "'a outcome \<Rightarrow> ('a \<Rightarrow> 'b outcome) \<Rightarrow> 'b outcome" where
  "and_then (Value x) f = f x"
| "and_then (Fault e) f = Fault e"
| "and_then Undefined f = Undefined"

text \<open>
  The type \<open>int\<close> of C is taken 32 bits wide, as on the hosted targets of the
  program; its values are modelled by mathematical integers with the range written out.
  An operand of type \<open>uint8_t\<close> or \<open>uint16_t\<close> is promoted to \<open>int\<close> with its value
  unchanged; an \<open>int\<close> operand that meets a \<open>uint32_t\<close> one is converted to
  \<open>uint32_t\<close>, modulo \<open>2 ^ 32\<close>.
\<close>

definition INT_MIN :: int where
  "INT_MIN = - 2147483648"

definition INT_MAX :: int where
  "INT_MAX = 2147483647"

definition promote :: "'a::len word \<Rightarrow> int" where
  "promote w = uint w"

definition to_unsigned :: "int \<Rightarrow> uint32_t" where
  "to_unsigned i = word_of_int i"

definition char_const :: "char \<Rightarrow> int" where
  "char_const c = of_char c"

text \<open>\<open>==\<close>, \<open>&&\<close> and \<open>||\<close> yield the \<open>int\<close> 1 or 0.\<close>

definition c_eq :: "int \<Rightarrow> int \<Rightarrow> int" where
  "c_eq a b = (if a = b then 1 else 0)"

definition c_eq_u32 :: "uint32_t \<Rightarrow> uint32_t \<Rightarrow> int" where
  "c_eq_u32 a b = (if a = b then 1 else 0)"

definition c_land :: "int \<Rightarrow> int \<Rightarrow> int" where
  "c_land a b = (if a = 0 then 0 else if b = 0 then 0 else 1)"

definition c_lor :: "int \<Rightarrow> int \<Rightarrow> int" where
  "c_lor a b = (if a \<noteq> 0 then 1 else if b \<noteq> 0 then 1 else 0)"

text \<open>
  Signed division truncates towards zero; a zero divisor and a quotient outside \<open>int\<close>
  are undefined. Signed multiplication is undefined when the product leaves \<open>int\<close>.
  Unsigned division is undefined for a zero divisor.
\<close>

definition c_div :: "int \<Rightarrow> int \<Rightarrow> int outcome" where
  "c_div a b =
     (if b = 0 then Undefined
      else let q = sgn a * sgn b * (\<bar>a\<bar> div \<bar>b\<bar>)
           in if INT_MIN \<le> q \<and> q \<le> INT_MAX then Value q else Undefined)"

definition c_mul :: "int \<Rightarrow> int \<Rightarrow> int outcome" where
  "c_mul a b =
     (let p = a * b
      in if INT_MIN \<le> p \<and> p \<le> INT_MAX then Value p else Undefined)"

definition c_div_u32 :: "uint32_t \<Rightarrow> uint32_t \<Rightarrow> uint32_t outcome" where
  "c_div_u32 a b = (if b = 0 then Undefined else Value (a div b))"

subsection \<open>The macros\<close>

text \<open>
  \<^verbatim>\<open>#define TEST_WAV_COMPAT(wav)  ( (wav)->AudioFormat==1
      && ((wav)->NumOfChan==1 || (wav)->NumOfChan==2)
      && (wav)->SamplesPerSec==16000 && (wav)->bitsPerSample==16
      && (wav)->Subchunk2ID[0]=='d' && (wav)->Subchunk2ID[3] == 'a' )\<close>

  \<open>&&\<close> associates to the left. The macro's value is an \<open>int\<close>; \<open>isCompatible\<close> is its
  reading as a truth value.
\<close>

definition TEST_WAV_COMPAT :: "wavHeader \<Rightarrow> int" where
  "TEST_WAV_COMPAT wav =
     c_land (c_land (c_land (c_land (c_land
       (c_eq (promote (AudioFormat wav)) 1)
       (c_lor (c_eq (promote (NumOfChan wav)) 1) (c_eq (promote (NumOfChan wav)) 2)))
       (c_eq_u32 (SamplesPerSec wav) (to_unsigned 16000)))
       (c_eq (promote (bitsPerSample wav)) 16))
       (c_eq (promote (at0 (Subchunk2ID wav))) (char_const CHR ''d'')))
       (c_eq (promote (at3 (Subchunk2ID wav))) (char_const CHR ''a''))"

definition isCompatible :: "wavHeader \<Rightarrow> bool" where
  "isCompatible wav = (TEST_WAV_COMPAT wav \<noteq> 0)"

text \<open>\<^verbatim>\<open>#define WAV_LEN(wav)          ( (wav)->Subchunk2Size )\<close>\<close>

definition WAV_LEN :: "wavHeader \<Rightarrow> uint32_t" where
  "WAV_LEN wav = Subchunk2Size wav"

text \<open>
  \<^verbatim>\<open>#define WAV_NSAMPLES(wav)     ( WAV_LEN((wav))/ (((wav)->bitsPerSample/8)*(wav)->NumOfChan) )\<close>

  The divisor is computed in \<open>int\<close> from the two promoted members and then converted to
  \<open>uint32_t\<close> for the unsigned division of the length.
\<close>

definition nsamples_divisor :: "wavHeader \<Rightarrow> int outcome" where
  "nsamples_divisor wav =
     and_then (c_div (promote (bitsPerSample wav)) 8)
       (\<lambda>q. c_mul q (promote (NumOfChan wav)))"

definition WAV_NSAMPLES :: "wavHeader \<Rightarrow> uint32_t outcome" where
  "WAV_NSAMPLES wav =
     and_then (nsamples_divisor wav)
       (\<lambda>d. c_div_u32 (WAV_LEN wav) (to_unsigned d))"

subsection \<open>The macros as evaluations over a memory\<close>

text \<open>
  The argument \<open>wav\<close> of each macro is a pointer. A memory maps an address to the
  header stored there; an evaluation takes the memory and has a value together with the
  memory after it, or is undefined. \<open>read_member wav m\<close> is the expression \<open>(wav)->m\<close>; it is
  undefined when no header is stored at \<open>wav\<close>. \<open>&&\<close> and \<open>||\<close> evaluate their right
  operand only when the left one does not decide the result.
\<close>

type_synonym memory = "nat \<Rightarrow> wavHeader option"

type_synonym 'a eval = "memory \<Rightarrow> ('a \<times> memory) outcome"

definition yield :: "'a \<Rightarrow> 'a eval" where
  "yield v = (\<lambda>s. Value (v, s))"

definition lift :: "'a outcome \<Rightarrow> 'a eval" where
  "lift r = (\<lambda>s. and_then r (\<lambda>v. Value (v, s)))"

definition bind_eval :: "'a eval \<Rightarrow> ('a \<Rightarrow> 'b eval) \<Rightarrow> 'b eval" where
  "bind_eval e f = (\<lambda>s. and_then (e s) (\<lambda>(v, s'). f v s'))"

definition read_member :: "nat \<Rightarrow> (wavHeader \<Rightarrow> 'a) \<Rightarrow> 'a eval" where
  "read_member wav m = (\<lambda>s. case s wav of None \<Rightarrow> Undefined | Some h \<Rightarrow> Value (m h, s))"

definition land :: "int eval \<Rightarrow> int eval \<Rightarrow> int eval" where
  "land a b = bind_eval a (\<lambda>x. if x = 0 then yield 0 else bind_eval b (\<lambda>y. yield (if y = 0 then 0 else 1)))"

definition lor :: "int eval \<Rightarrow> int eval \<Rightarrow> int eval" where
  "lor a b = bind_eval a (\<lambda>x. if x \<noteq> 0 then yield 1 else bind_eval b (\<lambda>y. yield (if y \<noteq> 0 then 1 else 0)))"

definition eval_TEST_WAV_COMPAT :: "nat \<Rightarrow> int eval" where
  "eval_TEST_WAV_COMPAT wav =
     land (land (land (land (land
       (bind_eval (read_member wav AudioFormat) (\<lambda>x. yield (c_eq (promote x) 1)))
       (lor (bind_eval (read_member wav NumOfChan) (\<lambda>x. yield (c_eq (promote x) 1)))
            (bind_eval (read_member wav NumOfChan) (\<lambda>x. yield (c_eq (promote x) 2)))))
       (bind_eval (read_member wav SamplesPerSec) (\<lambda>x. yield (c_eq_u32 x (to_unsigned 16000)))))
       (bind_eval (read_member wav bitsPerSample) (\<lambda>x. yield (c_eq (promote x) 16))))
       (bind_eval (read_member wav Subchunk2ID) (\<lambda>x. yield (c_eq (promote (at0 x)) (char_const CHR ''d'')))))
       (bind_eval (read_member wav Subchunk2ID) (\<lambda>x. yield (c_eq (promote (at3 x)) (char_const CHR ''a''))))"

definition eval_WAV_LEN :: "nat \<Rightarrow> uint32_t eval" where
  "eval_WAV_LEN wav = read_member wav Subchunk2Size"

definition eval_WAV_NSAMPLES :: "nat \<Rightarrow> uint32_t eval" where
  "eval_WAV_NSAMPLES wav =
     bind_eval (eval_WAV_LEN wav) (\<lambda>len.
     bind_eval (bind_eval (bind_eval (read_member wav bitsPerSample) (\<lambda>b. lift (c_div (promote b) 8)))
              (\<lambda>q. bind_eval (read_member wav NumOfChan) (\<lambda>n. lift (c_mul q (promote n)))))
         (\<lambda>d. lift (c_div_u32 len (to_unsigned d))))"

text \<open>The memory that holds one header, at address 0.\<close>

definition single :: "wavHeader \<Rightarrow> memory" where
  "single h = (\<lambda>a. if a = 0 then Some h else None)"

subsection \<open>The declaration of the record and its layout\<close>

text \<open>
  The members of \<open>struct wavHeader\<close> in the order of their declaration: name, element
  type and number of elements (1 for a scalar). Members are placed in that order, each at
  the next offset that is a multiple of the size of its element type; the size of the
  record is the end of the last member, rounded up to the largest element size.
\<close>

datatype ctype = Uint8 | Uint16 | Uint32

fun sizeof_ctype :: "ctype \<Rightarrow> nat" where
  "sizeof_ctype Uint8 = 1"
| "sizeof_ctype Uint16 = 2"
| "sizeof_ctype Uint32 = 4"

type_synonym member_decl = "string \<times> ctype \<times> nat"

definition wavHeader_members :: "member_decl list" where
  "wavHeader_members =
     [(''RIFF'', Uint8, 4), (''ChunkSize'', Uint32, 1), (''WAVE'', Uint8, 4),
      (''fmt'', Uint8, 4), (''Subchunk1Size'', Uint32, 1), (''AudioFormat'', Uint16, 1),
      (''NumOfChan'', Uint16, 1), (''SamplesPerSec'', Uint32, 1), (''bytesPerSec'', Uint32, 1),
      (''blockAlign'', Uint16, 1), (''bitsPerSample'', Uint16, 1), (''Subchunk2ID'', Uint8, 4),
      (''Subchunk2Size'', Uint32, 1)]"

definition align_up :: "nat \<Rightarrow> nat \<Rightarrow> nat" where
  "align_up a n = ((n + a - 1) div a) * a"

fun layout :: "nat \<Rightarrow> member_decl list \<Rightarrow> (string \<times> nat \<times> nat) list" where
  "layout off [] = []"
| "layout off ((name, t, k) # ms) =
     (let start = align_up (sizeof_ctype t) off; len = sizeof_ctype t * k
      in (name, start, len) # layout (start + len) ms)"

fun end_of :: "(string \<times> nat \<times> nat) list \<Rightarrow> nat" where
  "end_of [] = 0"
| "end_of [(name, start, len)] = start + len"
| "end_of (m # ms) = end_of ms"

definition sizeof_struct :: "member_decl list \<Rightarrow> nat" where
  "sizeof_struct ms =
     align_up (fold max (map (\<lambda>(name, t, k). sizeof_ctype t) ms) 1) (end_of (layout 0 ms))"

subsection \<open>The serialised form\<close>

text \<open>
  The header file declares the record and the three macros; the code that writes a header
  to the first 44 bytes of a wave file and reads it back is not part of it. The byte
  sequences of a tag and of an integer, least significant byte first:
\<close>

definition raw4 :: "bytes4 \<Rightarrow> uint8_t list" where
  "raw4 t = [at0 t, at1 t, at2 t, at3 t]"

definition le16 :: "uint16_t \<Rightarrow> uint8_t list" where
  "le16 w = [ucast w, ucast (drop_bit 8 w)]"

definition le32 :: "uint32_t \<Rightarrow> uint8_t list" where
  "le32 w = [ucast w, ucast (drop_bit 8 w), ucast (drop_bit 16 w), ucast (drop_bit 24 w)]"

text \<open>
  Modelled from the spec: the function that writes a header is missing from the source.
  Sections 3 and 4.1 of the specification give the form: the thirteen fields in the order
  of the table, each in its width, the integers little-endian, the tags as their four raw
  bytes, nothing between them.
\<close>

definition encode :: "wavHeader \<Rightarrow> uint8_t list" where
  "encode h =
     raw4 (RIFF h) @ le32 (ChunkSize h) @ raw4 (WAVE h) @ raw4 (fmt h) @
     le32 (Subchunk1Size h) @ le16 (AudioFormat h) @ le16 (NumOfChan h) @
     le32 (SamplesPerSec h) @ le32 (bytesPerSec h) @ le16 (blockAlign h) @
     le16 (bitsPerSample h) @ raw4 (Subchunk2ID h) @ le32 (Subchunk2Size h)"

text \<open>The bytes of a field, and the number that a little-endian byte sequence denotes.\<close>

definition bytes_at :: "nat \<Rightarrow> nat \<Rightarrow> uint8_t list \<Rightarrow> uint8_t list" where
  "bytes_at off n bs = take n (drop off bs)"

fun le_nat :: "uint8_t list \<Rightarrow> nat" where
  "le_nat [] = 0"
| "le_nat (b # bs) = unat b + 256 * le_nat bs"

definition get_raw4 :: "uint8_t list \<Rightarrow> bytes4" where
  "get_raw4 bs = Bytes4 (bs ! 0) (bs ! 1) (bs ! 2) (bs ! 3)"

definition get_le16 :: "uint8_t list \<Rightarrow> uint16_t" where
  "get_le16 bs = of_nat (le_nat bs)"

definition get_le32 :: "uint8_t list \<Rightarrow> uint32_t" where
  "get_le32 bs = of_nat (le_nat bs)"

text \<open>
  Modelled from the spec: the function that reads a header is missing from the source.
  It takes the fields from the first 44 bytes at the offsets of the table of section 3 and
  fails with \<open>TruncatedInput\<close> when there are fewer; the tags are not compared with the
  expected magic, which section 7 leaves to the caller.
\<close>

definition decode :: "uint8_t list \<Rightarrow> error_kind + wavHeader" where
  "decode bs =
     (if length bs < 44 then Inl TruncatedInput
      else Inr \<lparr>RIFF = get_raw4 (bytes_at 0 4 bs),
                ChunkSize = get_le32 (bytes_at 4 4 bs),
                WAVE = get_raw4 (bytes_at 8 4 bs),
                fmt = get_raw4 (bytes_at 12 4 bs),
                Subchunk1Size = get_le32 (bytes_at 16 4 bs),
                AudioFormat = get_le16 (bytes_at 20 2 bs),
                NumOfChan = get_le16 (bytes_at 22 2 bs),
                SamplesPerSec = get_le32 (bytes_at 24 4 bs),
                bytesPerSec = get_le32 (bytes_at 28 4 bs),
                blockAlign = get_le16 (bytes_at 32 2 bs),
                bitsPerSample = get_le16 (bytes_at 34 2 bs),
                Subchunk2ID = get_raw4 (bytes_at 36 4 bs),
                Subchunk2Size = get_le32 (bytes_at 40 4 bs)\<rparr>)"

subsection \<open>Example headers\<close>

text \<open>
  A canonical 16 kHz PCM header with the given number of channels, bit depth and payload
  length, and the tag made of four characters.
\<close>

definition ascii4 :: "char \<Rightarrow> char \<Rightarrow> char \<Rightarrow> char \<Rightarrow> bytes4" where
  "ascii4 a b c d = Bytes4 (of_char a) (of_char b) (of_char c) (of_char d)"

definition pcm_header :: "uint16_t \<Rightarrow> uint16_t \<Rightarrow> uint32_t \<Rightarrow> wavHeader" where
  "pcm_header nch bits len =
     \<lparr>RIFF = ascii4 CHR ''R'' CHR ''I'' CHR ''F'' CHR ''F'',
      ChunkSize = len + 36,
      WAVE = ascii4 CHR ''W'' CHR ''A'' CHR ''V'' CHR ''E'',
      fmt = ascii4 CHR ''f'' CHR ''m'' CHR ''t'' CHR '' '',
      Subchunk1Size = 16,
      AudioFormat = 1,
      NumOfChan = nch,
      SamplesPerSec = 16000,
      bytesPerSec = 16000 * ucast nch * ucast (drop_bit 3 bits),
      blockAlign = nch * drop_bit 3 bits,
      bitsPerSample = bits,
      Subchunk2ID = ascii4 CHR ''d'' CHR ''a'' CHR ''t'' CHR ''a'',
      Subchunk2Size = len\<rparr>"

text \<open>
  A header whose container tags and sizes are rubbish, while the members that the
  compatibility test reads have the accepted values.
\<close>

definition corrupt_header :: wavHeader where
  "corrupt_header =
     \<lparr>RIFF = ascii4 CHR ''J'' CHR ''U'' CHR ''N'' CHR ''K'',
      ChunkSize = 0,
      WAVE = ascii4 CHR ''X'' CHR ''X'' CHR ''X'' CHR ''X'',
      fmt = ascii4 CHR ''?'' CHR ''?'' CHR ''?'' CHR ''?'',
      Subchunk1Size = 99,
      AudioFormat = 1,
      NumOfChan = 1,
      SamplesPerSec = 16000,
      bytesPerSec = 7,
      blockAlign = 13,
      bitsPerSample = 16,
      Subchunk2ID = ascii4 CHR ''d'' CHR ''o'' CHR ''g'' CHR ''a'',
      Subchunk2Size = 4294967295\<rparr>"

section \<open>Auxiliary facts\<close>

subsection \<open>The compatibility test\<close>

lemma char_const_values: "char_const CHR ''d'' = 100" "char_const CHR ''a'' = 97"
  by (simp_all add: char_const_def)

lemma c_eq_promote16:
  "c_eq (promote (w::uint16_t)) 1 \<noteq> 0 \<longleftrightarrow> w = 1"
  "c_eq (promote (w::uint16_t)) 2 \<noteq> 0 \<longleftrightarrow> w = 2"
  "c_eq (promote (w::uint16_t)) 16 \<noteq> 0 \<longleftrightarrow> w = 16"
  by (simp_all add: c_eq_def promote_def word_uint_eq_iff)

lemma c_eq_promote8:
  "c_eq (promote (b::uint8_t)) 100 \<noteq> 0 \<longleftrightarrow> b = 100"
  "c_eq (promote (b::uint8_t)) 97 \<noteq> 0 \<longleftrightarrow> b = 97"
  by (simp_all add: c_eq_def promote_def word_uint_eq_iff)

lemma c_land_iff: "c_land a b \<noteq> 0 \<longleftrightarrow> a \<noteq> 0 \<and> b \<noteq> 0"
  by (simp add: c_land_def)

lemma c_lor_iff: "c_lor a b \<noteq> 0 \<longleftrightarrow> a \<noteq> 0 \<or> b \<noteq> 0"
  by (simp add: c_lor_def)

lemma c_eq_u32_iff: "c_eq_u32 a b \<noteq> 0 \<longleftrightarrow> a = b"
  by (simp add: c_eq_u32_def)

lemma compatible_fields:
  "isCompatible h \<longleftrightarrow>
     AudioFormat h = 1 \<and> (NumOfChan h = 1 \<or> NumOfChan h = 2) \<and> SamplesPerSec h = 16000 \<and>
     bitsPerSample h = 16 \<and> at0 (Subchunk2ID h) = 100 \<and> at3 (Subchunk2ID h) = 97"
  by (simp add: isCompatible_def TEST_WAV_COMPAT_def c_land_iff c_lor_iff c_eq_u32_iff
      c_eq_promote16 c_eq_promote8 char_const_values to_unsigned_def)

lemma TEST_WAV_COMPAT_value: "TEST_WAV_COMPAT h = (if isCompatible h then 1 else 0)"
  by (simp add: isCompatible_def TEST_WAV_COMPAT_def c_land_def)

lemma ascii_codes: "(of_char CHR ''d'' :: uint8_t) = 100" "(of_char CHR ''a'' :: uint8_t) = 97"
  by simp_all

subsection \<open>The sample count\<close>

lemma uint16_range: "0 \<le> uint (w::uint16_t) \<and> uint w \<le> 65535"
  using uint_bounded[of w] by simp

lemma c_div_promote_8: "c_div (promote (w::uint16_t)) 8 = Value (uint w div 8)"
  using uint16_range[of w]
  by (auto simp: c_div_def promote_def INT_MIN_def INT_MAX_def Let_def sgn_if)

lemma divisor_range:
  "0 \<le> (uint (b::uint16_t) div 8) * uint (n::uint16_t) \<and> (uint b div 8) * uint n \<le> 536797185"
proof -
  have b0: "0 \<le> uint b div 8"
    by (simp add: pos_imp_zdiv_nonneg_iff)
  have "uint b div 8 \<le> 65535 div 8"
    using uint16_range[of b] by (intro zdiv_mono1) auto
  then have b1: "uint b div 8 \<le> 8191" by simp
  have n: "0 \<le> uint n" "uint n \<le> 65535"
    using uint16_range[of n] by auto
  have "(uint b div 8) * uint n \<le> 8191 * 65535"
    using b0 b1 n by (intro mult_mono) auto
  moreover have "0 \<le> (uint b div 8) * uint n"
    using b0 n by simp
  ultimately show ?thesis by simp
qed

lemma nsamples_divisor_value:
  "nsamples_divisor h = Value ((uint (bitsPerSample h) div 8) * uint (NumOfChan h))"
  unfolding nsamples_divisor_def c_div_promote_8
  using divisor_range[of "bitsPerSample h" "NumOfChan h"]
  by (simp add: c_mul_def promote_def INT_MIN_def INT_MAX_def)

lemma unat_to_unsigned:
  assumes "0 \<le> d" "d \<le> 536797185"
  shows "unat (to_unsigned d) = nat d"
proof -
  have "d < 2 ^ 32" using assms(2) by simp
  with assms(1) have "take_bit 32 d = d" by (rule take_bit_int_eq_self)
  then have "uint (word_of_int d :: uint32_t) = d"
    by (simp only: uint_word_of_int_eq len_bit0 len_num1 mult_numeral_1_right numeral_times_numeral semiring_norm)
  then show ?thesis by (simp add: to_unsigned_def unat_eq_nat_uint)
qed

lemma divisor_nat:
  "nat ((uint (b::uint16_t) div 8) * uint (n::uint16_t)) = (unat b div 8) * unat n"
proof -
  have "uint b div 8 * uint n = int (unat b div 8 * unat n)"
    by (simp add: zdiv_int)
  then show ?thesis by (simp only: nat_int)
qed

lemma unat_divisor:
  "unat (to_unsigned ((uint (b::uint16_t) div 8) * uint (n::uint16_t))) = (unat b div 8) * unat n"
  using divisor_range[of b n] by (simp add: unat_to_unsigned divisor_nat)

lemma to_unsigned_divisor_0:
  "to_unsigned ((uint (b::uint16_t) div 8) * uint (n::uint16_t)) = 0
     \<longleftrightarrow> (unat b div 8) * unat n = 0"
  using unat_divisor[of b n] by (metis unat_eq_0)

lemma WAV_NSAMPLES_cases:
  "WAV_NSAMPLES h =
     (if (unat (bitsPerSample h) div 8) * unat (NumOfChan h) = 0 then Undefined
      else Value (WAV_LEN h div to_unsigned ((uint (bitsPerSample h) div 8) * uint (NumOfChan h))))"
  by (simp add: WAV_NSAMPLES_def nsamples_divisor_value c_div_u32_def to_unsigned_divisor_0)

lemma divisor_zero_iff:
  "(unat (b::uint16_t) div 8) * unat (n::uint16_t) = 0 \<longleftrightarrow> b < 8 \<or> n = 0"
  by (auto simp: word_less_nat_alt unat_eq_0 div_eq_0_iff)

lemma WAV_NSAMPLES_unat:
  assumes "(unat (bitsPerSample h) div 8) * unat (NumOfChan h) \<noteq> 0"
  shows "\<exists>n. WAV_NSAMPLES h = Value n \<and>
     unat n = unat (Subchunk2Size h) div ((unat (bitsPerSample h) div 8) * unat (NumOfChan h))"
  using assms by (simp add: WAV_NSAMPLES_cases unat_div unat_divisor WAV_LEN_def)

lemma WAV_NSAMPLES_undefined_iff:
  "WAV_NSAMPLES h = Undefined \<longleftrightarrow> bitsPerSample h < 8 \<or> NumOfChan h = 0"
proof -
  have "(if c then Undefined else Value x) = Undefined \<longleftrightarrow> c" for c and x :: uint32_t
    by simp
  then show ?thesis
    unfolding WAV_NSAMPLES_cases divisor_zero_iff by (rule ssubst) (rule refl)
qed

subsection \<open>Layout and serialised form\<close>

lemma layout_Cons:
  "layout off ((name, t, k) # ms) =
     (name, align_up (sizeof_ctype t) off, sizeof_ctype t * k) #
     layout (align_up (sizeof_ctype t) off + sizeof_ctype t * k) ms"
  by (simp add: Let_def)

lemma layout_wavHeader:
  "layout 0 wavHeader_members =
     [(''RIFF'', 0, 4), (''ChunkSize'', 4, 4), (''WAVE'', 8, 4), (''fmt'', 12, 4),
      (''Subchunk1Size'', 16, 4), (''AudioFormat'', 20, 2), (''NumOfChan'', 22, 2),
      (''SamplesPerSec'', 24, 4), (''bytesPerSec'', 28, 4), (''blockAlign'', 32, 2),
      (''bitsPerSample'', 34, 2), (''Subchunk2ID'', 36, 4), (''Subchunk2Size'', 40, 4)]"
  unfolding wavHeader_members_def
  by (simp add: layout_Cons align_up_def del: layout.simps(2))

lemma sizeof_wavHeader: "sizeof_struct wavHeader_members = 44"
  unfolding sizeof_struct_def layout_wavHeader
  by (simp add: wavHeader_members_def align_up_def)

lemma sum_member_sizes:
  "sum_list (map (\<lambda>(name, t, k). sizeof_ctype t * k) wavHeader_members) = 44"
  by (simp add: wavHeader_members_def)

lemma unat_low_byte: "unat (ucast (w::'a::len word) :: uint8_t) = unat w mod 256"
  by (simp add: unsigned_ucast_eq take_bit_eq_mod)

lemma unat_drop: "unat (drop_bit n (w::'a::len word)) = unat w div 2 ^ n"
proof -
  have "unat (drop_bit n w) = drop_bit n (unat w)" by (rule unat_drop_bit_eq)
  also have "\<dots> = unat w div 2 ^ n" by (rule drop_bit_eq_div)
  finally show ?thesis .
qed

lemma split_byte: "y mod 256 + 256 * (y div 256) = (y::nat)"
  by simp

lemma bytes2_nat:
  assumes "x < 65536"
  shows "x mod 256 + 256 * (x div 256 mod 256) = (x::nat)"
proof -
  have "x div 256 < 256" using assms by simp
  then show ?thesis by simp
qed

lemma bytes4_nat:
  assumes "x < 4294967296"
  shows "x mod 256 + 256 * (x div 256 mod 256 + 256 * (x div 65536 mod 256 + 256 * (x div 16777216 mod 256))) = (x::nat)"
proof -
  have d: "x div 65536 = x div 256 div 256" "x div 16777216 = x div 256 div 256 div 256"
    by (simp_all add: div_mult2_eq[symmetric])
  have "x div 256 div 256 div 256 < 256" using assms by (simp add: div_mult2_eq[symmetric])
  then show ?thesis unfolding d by (simp add: split_byte)
qed

lemma le_nat_le16: "le_nat (le16 w) = unat w"
proof -
  have "unat w < 65536" using unsigned_less[of w, where 'a=nat] by simp
  then show ?thesis
    using bytes2_nat[of "unat w"] by (simp add: le16_def unat_low_byte unat_drop)
qed

lemma le_nat_le32: "le_nat (le32 w) = unat w"
proof -
  have "unat w < 4294967296" using unsigned_less[of w, where 'a=nat] by simp
  then show ?thesis
    using bytes4_nat[of "unat w"] by (simp add: le32_def unat_low_byte unat_drop)
qed

lemma get_le16_le16: "get_le16 (le16 w) = w"
  by (simp add: get_le16_def le_nat_le16)

lemma get_le32_le32: "get_le32 (le32 w) = w"
  by (simp add: get_le32_def le_nat_le32)

lemma get_raw4_raw4: "get_raw4 (raw4 t) = t"
  by (simp add: get_raw4_def raw4_def)

lemma length_fields: "length (raw4 t) = 4" "length (le32 w) = 4" "length (le16 v) = 2"
  by (simp_all add: raw4_def le32_def le16_def)

lemma length_encode: "length (encode h) = 44"
  by (simp add: encode_def length_fields)

lemma bytes_at_0: "length xs = n \<Longrightarrow> bytes_at 0 n (xs @ ys) = xs"
  by (simp add: bytes_at_def)

lemma bytes_at_skip: "length xs = k \<Longrightarrow> k \<le> off \<Longrightarrow> bytes_at off n (xs @ ys) = bytes_at (off - k) n ys"
  by (simp add: bytes_at_def)

lemma bytes_at_last: "length xs = n \<Longrightarrow> bytes_at 0 n xs = xs"
  by (simp add: bytes_at_def)

lemma bytes_ats:
  "bytes_at 0 4 (encode h) = raw4 (RIFF h)"
  "bytes_at 4 4 (encode h) = le32 (ChunkSize h)"
  "bytes_at 8 4 (encode h) = raw4 (WAVE h)"
  "bytes_at 12 4 (encode h) = raw4 (fmt h)"
  "bytes_at 16 4 (encode h) = le32 (Subchunk1Size h)"
  "bytes_at 20 2 (encode h) = le16 (AudioFormat h)"
  "bytes_at 22 2 (encode h) = le16 (NumOfChan h)"
  "bytes_at 24 4 (encode h) = le32 (SamplesPerSec h)"
  "bytes_at 28 4 (encode h) = le32 (bytesPerSec h)"
  "bytes_at 32 2 (encode h) = le16 (blockAlign h)"
  "bytes_at 34 2 (encode h) = le16 (bitsPerSample h)"
  "bytes_at 36 4 (encode h) = raw4 (Subchunk2ID h)"
  "bytes_at 40 4 (encode h) = le32 (Subchunk2Size h)"
  unfolding encode_def
  by (simp_all add: bytes_at_skip bytes_at_0 bytes_at_last length_fields)

lemma decode_encode: "decode (encode h) = Inr h"
  by (simp add: decode_def length_encode bytes_ats get_le16_le16 get_le32_le32 get_raw4_raw4)

lemma bytes_at_prefix:
  "off + n \<le> length xs \<Longrightarrow> bytes_at off n (xs @ ys) = bytes_at off n xs"
  by (simp add: bytes_at_def)

lemma decode_stream: "decode (encode h @ payload) = Inr h"
proof -
  have "decode (encode h @ payload) = decode (encode h)"
    by (simp add: decode_def bytes_at_prefix length_encode)
  then show ?thesis by (simp only: decode_encode)
qed

subsection \<open>Evaluation over a memory\<close>

lemma read_yield:
  "s wav = Some h \<Longrightarrow> bind_eval (read_member wav m) (\<lambda>x. yield (f x)) s = Value (f (m h), s)"
  by (simp add: bind_eval_def read_member_def yield_def)

lemma read_lift:
  "s wav = Some h \<Longrightarrow>
   bind_eval (read_member wav m) (\<lambda>x. lift (f x)) s = and_then (f (m h)) (\<lambda>v. Value (v, s))"
  by (simp add: bind_eval_def read_member_def lift_def)

lemma land_value:
  "a s = Value (x, s) \<Longrightarrow> b s = Value (y, s) \<Longrightarrow> land a b s = Value (c_land x y, s)"
  by (simp add: land_def bind_eval_def yield_def c_land_def)

lemma lor_value:
  "a s = Value (x, s) \<Longrightarrow> b s = Value (y, s) \<Longrightarrow> lor a b s = Value (c_lor x y, s)"
  by (simp add: lor_def bind_eval_def yield_def c_lor_def)

lemma eval_TEST_WAV_COMPAT_value:
  assumes "s wav = Some h"
  shows "eval_TEST_WAV_COMPAT wav s = Value (TEST_WAV_COMPAT h, s)"
  unfolding eval_TEST_WAV_COMPAT_def TEST_WAV_COMPAT_def
  by (intro land_value lor_value read_yield assms)

lemma eval_WAV_LEN_value:
  "s wav = Some h \<Longrightarrow> eval_WAV_LEN wav s = Value (WAV_LEN h, s)"
  by (simp add: eval_WAV_LEN_def read_member_def WAV_LEN_def)

lemma c_mul_divisor:
  "c_mul (uint (b::uint16_t) div 8) (promote (n::uint16_t)) = Value ((uint b div 8) * uint n)"
  using divisor_range[of b n]
  by (simp add: c_mul_def promote_def INT_MIN_def INT_MAX_def)

lemma eval_WAV_NSAMPLES_outcome:
  assumes "s wav = Some h"
  shows "eval_WAV_NSAMPLES wav s = and_then (WAV_NSAMPLES h) (\<lambda>n. Value (n, s))"
  using assms
  by (simp add: eval_WAV_NSAMPLES_def eval_WAV_LEN_def bind_eval_def read_member_def lift_def
      c_div_promote_8 c_mul_divisor WAV_NSAMPLES_def nsamples_divisor_value WAV_LEN_def)

subsection \<open>Example headers\<close>

lemma pcm_header_fields:
  "bitsPerSample (pcm_header n b l) = b" "NumOfChan (pcm_header n b l) = n"
  "Subchunk2Size (pcm_header n b l) = l" "AudioFormat (pcm_header n b l) = 1"
  "SamplesPerSec (pcm_header n b l) = 16000"
  "Subchunk2ID (pcm_header n b l) = ascii4 CHR ''d'' CHR ''a'' CHR ''t'' CHR ''a''"
  by (simp_all add: pcm_header_def)

section \<open>Claims\<close>

text \<open>
  C1: \<open>isCompatible\<close> holds of a header exactly when its audio format is 1, it has one or
  two channels, its sampling rate is 16000, its bit depth is 16, and bytes 0 and 3 of
  \<open>Subchunk2ID\<close> are the ASCII codes of \<open>d\<close> (100) and \<open>a\<close> (97). No other member
  matters: replacing every other member, and bytes 1 and 2 of \<open>Subchunk2ID\<close>, by
  arbitrary values leaves the result as it is.
\<close>

theorem isCompatible_iff:
  "(isCompatible h \<longleftrightarrow>
      AudioFormat h = 1 \<and> (NumOfChan h = 1 \<or> NumOfChan h = 2) \<and> SamplesPerSec h = 16000 \<and>
      bitsPerSample h = 16 \<and>
      at0 (Subchunk2ID h) = of_char CHR ''d'' \<and> at3 (Subchunk2ID h) = of_char CHR ''a'') \<and>
   (of_char CHR ''d'' :: uint8_t) = 100 \<and> (of_char CHR ''a'' :: uint8_t) = 97 \<and>
   isCompatible (h\<lparr>RIFF := r, ChunkSize := cs, WAVE := w, fmt := f, Subchunk1Size := s1,
        bytesPerSec := bps, blockAlign := ba,
        Subchunk2ID := Bytes4 (at0 (Subchunk2ID h)) b1 b2 (at3 (Subchunk2ID h)),
        Subchunk2Size := s2\<rparr>) = isCompatible h"
  by (simp add: compatible_fields)

text \<open>
  C2: when \<open>(bitsPerSample / 8) * NumOfChan\<close> is not zero, \<open>WAV_NSAMPLES\<close> has a value, and
  that value is \<open>Subchunk2Size\<close> divided by the product, both divisions truncating and in
  that order. With 16 bits and two channels a length of 4000 gives 1000, and so does a
  length of 4001.
\<close>

theorem WAV_NSAMPLES_quotient:
  "((unat (bitsPerSample h) div 8) * unat (NumOfChan h) \<noteq> 0 \<longrightarrow>
      (\<exists>n. WAV_NSAMPLES h = Value n \<and>
           unat n = unat (Subchunk2Size h) div ((unat (bitsPerSample h) div 8) * unat (NumOfChan h)))) \<and>
   (bitsPerSample h = 16 \<and> NumOfChan h = 2 \<and> Subchunk2Size h = 4000 \<longrightarrow>
      WAV_NSAMPLES h = Value 1000) \<and>
   (bitsPerSample h = 16 \<and> NumOfChan h = 2 \<and> Subchunk2Size h = 4001 \<longrightarrow>
      WAV_NSAMPLES h = Value 1000)"
proof (intro conjI impI)
  assume "(unat (bitsPerSample h) div 8) * unat (NumOfChan h) \<noteq> 0"
  then show "\<exists>n. WAV_NSAMPLES h = Value n \<and>
      unat n = unat (Subchunk2Size h) div ((unat (bitsPerSample h) div 8) * unat (NumOfChan h))"
    by (rule WAV_NSAMPLES_unat)
next
  assume "bitsPerSample h = 16 \<and> NumOfChan h = 2 \<and> Subchunk2Size h = 4000"
  then show "WAV_NSAMPLES h = Value 1000"
    by (simp add: WAV_NSAMPLES_cases WAV_LEN_def to_unsigned_def)
next
  assume "bitsPerSample h = 16 \<and> NumOfChan h = 2 \<and> Subchunk2Size h = 4001"
  then show "WAV_NSAMPLES h = Value 1000"
    by (simp add: WAV_NSAMPLES_cases WAV_LEN_def to_unsigned_def)
qed

theorem WAV_NSAMPLES_quotient_witness:
  "(unat (bitsPerSample (pcm_header 2 16 4001)) div 8) * unat (NumOfChan (pcm_header 2 16 4001)) \<noteq> 0 \<and>
   WAV_NSAMPLES (pcm_header 2 16 4000) = Value 1000 \<and>
   WAV_NSAMPLES (pcm_header 2 16 4001) = Value 1000 \<and>
   (\<exists>n. WAV_NSAMPLES (pcm_header 2 16 4001) = Value n \<and> unat n = 4001 div (16 div 8 * 2))"
  using WAV_NSAMPLES_quotient [of "pcm_header 2 16 4000"] WAV_NSAMPLES_quotient [of "pcm_header 2 16 4001"]
  by (simp add: pcm_header_fields)

text \<open>
  The macro has no guard: with fewer than 8 bits per sample or no channel the divisor is
  zero, the division is undefined, and nothing that could count as an error result is
  produced. A header with no channel shows it.
\<close>

theorem WAV_NSAMPLES_zero_channels_no_error:
  "\<not> is_Fault (WAV_NSAMPLES (pcm_header 0 16 4000))"
  by (simp add: WAV_NSAMPLES_cases pcm_header_fields)

text \<open>
  C3, as the macro behaves: for every header with \<open>bitsPerSample < 8\<close> or
  \<open>NumOfChan = 0\<close> the divisor \<open>(bitsPerSample / 8) * NumOfChan\<close> is zero and
  \<open>WAV_NSAMPLES\<close> is an undefined division by zero; it reports no error result.
\<close>

theorem WAV_NSAMPLES_degenerate:
  assumes "bitsPerSample h < 8 \<or> NumOfChan h = 0"
  shows "nsamples_divisor h = Value 0 \<and> WAV_NSAMPLES h = Undefined \<and> \<not> is_Fault (WAV_NSAMPLES h)"
proof -
  have u: "WAV_NSAMPLES h = Undefined"
    using assms by (simp only: WAV_NSAMPLES_undefined_iff)
  have "(unat (bitsPerSample h) div 8) * unat (NumOfChan h) = 0"
    using assms by (simp only: divisor_zero_iff)
  then have "int ((unat (bitsPerSample h) div 8) * unat (NumOfChan h)) = 0"
    by (simp only: of_nat_0)
  then have "(uint (bitsPerSample h) div 8) * uint (NumOfChan h) = 0"
    by (simp add: zdiv_int)
  then have "nsamples_divisor h = Value 0"
    by (simp only: nsamples_divisor_value)
  with u show ?thesis by simp
qed

theorem WAV_NSAMPLES_degenerate_witness:
  "(bitsPerSample (pcm_header 0 16 4000) < 8 \<or> NumOfChan (pcm_header 0 16 4000) = 0) \<and>
   (bitsPerSample (pcm_header 1 0 4000) < 8 \<or> NumOfChan (pcm_header 1 0 4000) = 0) \<and>
   WAV_NSAMPLES (pcm_header 0 16 4000) = Undefined \<and>
   WAV_NSAMPLES (pcm_header 1 0 4000) = Undefined"
  using WAV_NSAMPLES_degenerate [of "pcm_header 0 16 4000"]
    WAV_NSAMPLES_degenerate [of "pcm_header 1 0 4000"]
  by (simp add: pcm_header_fields)

text \<open>
  C4: a header with audio format 1, one or two channels, 16000 samples per second and 16
  bits per sample passes the compatibility test whenever byte 0 of \<open>Subchunk2ID\<close> is
  \<open>d\<close> and byte 3 is \<open>a\<close>, whatever bytes 1 and 2 are; the tag need not be \<open>data\<close>.
\<close>

theorem weak_tag_accepted:
  assumes "AudioFormat h = 1" and "NumOfChan h = 1 \<or> NumOfChan h = 2"
    and "SamplesPerSec h = 16000" and "bitsPerSample h = 16"
    and "Subchunk2ID h = Bytes4 (of_char CHR ''d'') b1 b2 (of_char CHR ''a'')"
  shows "isCompatible h"
  using assms by (simp add: compatible_fields)

theorem weak_tag_accepted_witness:
  "Subchunk2ID (pcm_header 1 16 4000\<lparr>Subchunk2ID := ascii4 CHR ''d'' CHR ''X'' CHR ''X'' CHR ''a''\<rparr>)
     \<noteq> ascii4 CHR ''d'' CHR ''a'' CHR ''t'' CHR ''a'' \<and>
   isCompatible (pcm_header 1 16 4000\<lparr>Subchunk2ID := ascii4 CHR ''d'' CHR ''X'' CHR ''X'' CHR ''a''\<rparr>) \<and>
   isCompatible (pcm_header 2 16 4000\<lparr>Subchunk2ID := ascii4 CHR ''d'' CHR ''X'' CHR ''X'' CHR ''a''\<rparr>)"
  using weak_tag_accepted [of "pcm_header 1 16 4000\<lparr>Subchunk2ID := ascii4 CHR ''d'' CHR ''X'' CHR ''X'' CHR ''a''\<rparr>"
      "of_char CHR ''X''" "of_char CHR ''X''"]
    weak_tag_accepted [of "pcm_header 2 16 4000\<lparr>Subchunk2ID := ascii4 CHR ''d'' CHR ''X'' CHR ''X'' CHR ''a''\<rparr>"
      "of_char CHR ''X''" "of_char CHR ''X''"]
  by (simp add: pcm_header_fields ascii4_def)

text \<open>
  C5: \<open>WAV_LEN\<close> is the member \<open>Subchunk2Size\<close> as it stands, an unsigned 32-bit
  value; no other member of the header has any influence on it.
\<close>

theorem WAV_LEN_verbatim:
  "WAV_LEN h = Subchunk2Size h \<and>
   unat (WAV_LEN h) < 2 ^ 32 \<and>
   WAV_LEN (h\<lparr>RIFF := r, ChunkSize := cs, WAVE := w, fmt := f, Subchunk1Size := s1,
        AudioFormat := af, NumOfChan := n, SamplesPerSec := sr, bytesPerSec := bps,
        blockAlign := ba, bitsPerSample := b, Subchunk2ID := t\<rparr>) = Subchunk2Size h"
  using unsigned_less [of "Subchunk2Size h", where 'a = nat]
  by (simp add: WAV_LEN_def)

text \<open>
  C6: the thirteen members of the record lie, in the order of their declaration, at the
  offsets 0, 4, 8, 12, 16, 20, 22, 24, 28, 32, 34, 36 and 40 with the widths 4, 4, 4, 4,
  4, 2, 2, 4, 4, 2, 2, 4 and 4; the record is 44 bytes long, which is the sum of the
  widths, so there is no padding. The serialised form has 44 bytes, holds each member at
  its offset, and every integer member is stored least significant byte first.
\<close>

theorem wavHeader_layout:
  "layout 0 wavHeader_members =
     [(''RIFF'', 0, 4), (''ChunkSize'', 4, 4), (''WAVE'', 8, 4), (''fmt'', 12, 4),
      (''Subchunk1Size'', 16, 4), (''AudioFormat'', 20, 2), (''NumOfChan'', 22, 2),
      (''SamplesPerSec'', 24, 4), (''bytesPerSec'', 28, 4), (''blockAlign'', 32, 2),
      (''bitsPerSample'', 34, 2), (''Subchunk2ID'', 36, 4), (''Subchunk2Size'', 40, 4)] \<and>
   length wavHeader_members = 13 \<and>
   sizeof_struct wavHeader_members = 44 \<and>
   sum_list (map (\<lambda>(name, t, k). sizeof_ctype t * k) wavHeader_members) = 44 \<and>
   length (encode h) = 44 \<and>
   bytes_at 0 4 (encode h) = raw4 (RIFF h) \<and>
   le_nat (bytes_at 4 4 (encode h)) = unat (ChunkSize h) \<and>
   bytes_at 8 4 (encode h) = raw4 (WAVE h) \<and>
   bytes_at 12 4 (encode h) = raw4 (fmt h) \<and>
   le_nat (bytes_at 16 4 (encode h)) = unat (Subchunk1Size h) \<and>
   le_nat (bytes_at 20 2 (encode h)) = unat (AudioFormat h) \<and>
   le_nat (bytes_at 22 2 (encode h)) = unat (NumOfChan h) \<and>
   le_nat (bytes_at 24 4 (encode h)) = unat (SamplesPerSec h) \<and>
   le_nat (bytes_at 28 4 (encode h)) = unat (bytesPerSec h) \<and>
   le_nat (bytes_at 32 2 (encode h)) = unat (blockAlign h) \<and>
   le_nat (bytes_at 34 2 (encode h)) = unat (bitsPerSample h) \<and>
   bytes_at 36 4 (encode h) = raw4 (Subchunk2ID h) \<and>
   le_nat (bytes_at 40 4 (encode h)) = unat (Subchunk2Size h)"
  by (simp only: layout_wavHeader sizeof_wavHeader sum_member_sizes length_encode bytes_ats
      le_nat_le16 le_nat_le32 simp_thms)
   (simp add: wavHeader_members_def)

text \<open>
  C7: reading back the 44 bytes written for a header gives that header, member for
  member, also when the payload follows them. The members are words of their declared
  widths, so every header qualifies.
\<close>

theorem decode_encode_roundtrip:
  "length (encode h) = 44 \<and> decode (encode h) = Inr h \<and> decode (encode h @ payload) = Inr h"
  by (simp only: decode_encode decode_stream length_encode simp_thms)

text \<open>
  Evaluating \<open>WAV_NSAMPLES\<close> on a header with no channel has no value and no final
  memory: the division by zero is undefined.
\<close>

theorem WAV_NSAMPLES_zero_channels_no_result:
  "\<not> is_Value (eval_WAV_NSAMPLES 0 (single (pcm_header 0 16 4000)))"
proof -
  have "single (pcm_header 0 16 4000) 0 = Some (pcm_header 0 16 4000)"
    by (simp add: single_def)
  then have "eval_WAV_NSAMPLES 0 (single (pcm_header 0 16 4000))
      = and_then (WAV_NSAMPLES (pcm_header 0 16 4000)) (\<lambda>n. Value (n, single (pcm_header 0 16 4000)))"
    by (rule eval_WAV_NSAMPLES_outcome)
  then show ?thesis
    by (simp add: WAV_NSAMPLES_cases pcm_header_fields)
qed

text \<open>
  C8, as the macros behave: for a header stored at \<open>wav\<close>, \<open>TEST_WAV_COMPAT\<close> and
  \<open>WAV_LEN\<close> always, and \<open>WAV_NSAMPLES\<close> whenever its divisor is not zero, have a value
  that depends on the header only and leave the whole memory as it was; evaluations on
  equal headers, wherever they are stored, agree.
\<close>

theorem macros_read_only:
  assumes "s wav = Some h" and "s' wav' = Some h"
  shows "eval_TEST_WAV_COMPAT wav s = Value (TEST_WAV_COMPAT h, s) \<and>
         eval_WAV_LEN wav s = Value (WAV_LEN h, s) \<and>
         ((unat (bitsPerSample h) div 8) * unat (NumOfChan h) \<noteq> 0 \<longrightarrow>
            (\<exists>n. WAV_NSAMPLES h = Value n \<and> eval_WAV_NSAMPLES wav s = Value (n, s))) \<and>
         map_outcome fst (eval_TEST_WAV_COMPAT wav s) = map_outcome fst (eval_TEST_WAV_COMPAT wav' s') \<and>
         map_outcome fst (eval_WAV_LEN wav s) = map_outcome fst (eval_WAV_LEN wav' s') \<and>
         map_outcome fst (eval_WAV_NSAMPLES wav s) = map_outcome fst (eval_WAV_NSAMPLES wav' s')"
proof -
  have n: "map_outcome fst (eval_WAV_NSAMPLES a t) = WAV_NSAMPLES h" if "t a = Some h" for a t
    using that by (cases "WAV_NSAMPLES h") (simp_all add: eval_WAV_NSAMPLES_outcome)
  have v: "\<exists>n. WAV_NSAMPLES h = Value n \<and> eval_WAV_NSAMPLES wav s = Value (n, s)"
    if "(unat (bitsPerSample h) div 8) * unat (NumOfChan h) \<noteq> 0"
    using that assms(1) by (simp add: eval_WAV_NSAMPLES_outcome WAV_NSAMPLES_cases)
  show ?thesis
    using assms v
    by (simp add: eval_TEST_WAV_COMPAT_value eval_WAV_LEN_value n del: mult_eq_0_iff)
qed

theorem macros_read_only_witness:
  "single (pcm_header 2 16 4000) 0 = Some (pcm_header 2 16 4000) \<and>
   (unat (bitsPerSample (pcm_header 2 16 4000)) div 8) * unat (NumOfChan (pcm_header 2 16 4000)) \<noteq> 0 \<and>
   eval_TEST_WAV_COMPAT 0 (single (pcm_header 2 16 4000)) = Value (1, single (pcm_header 2 16 4000)) \<and>
   eval_WAV_LEN 0 (single (pcm_header 2 16 4000)) = Value (4000, single (pcm_header 2 16 4000)) \<and>
   eval_WAV_NSAMPLES 0 (single (pcm_header 2 16 4000)) = Value (1000, single (pcm_header 2 16 4000))"
proof -
  have m: "single (pcm_header 2 16 4000) 0 = Some (pcm_header 2 16 4000)"
    by (simp add: single_def)
  have c: "TEST_WAV_COMPAT (pcm_header 2 16 4000) = 1"
    by (simp add: TEST_WAV_COMPAT_def pcm_header_fields ascii4_def c_land_def c_lor_def c_eq_def
        c_eq_u32_def promote_def to_unsigned_def char_const_def)
  have n: "WAV_NSAMPLES (pcm_header 2 16 4000) = Value 1000"
    by (simp add: WAV_NSAMPLES_cases pcm_header_fields WAV_LEN_def to_unsigned_def)
  show ?thesis
    using m c n
      macros_read_only [of "single (pcm_header 2 16 4000)" 0 "pcm_header 2 16 4000"
        "single (pcm_header 2 16 4000)" 0]
    by (simp add: pcm_header_fields WAV_LEN_def)
qed

text \<open>
  C9: on a header that passes the compatibility test the quotient \<open>bitsPerSample / 8\<close>
  is 2, the divisor of \<open>WAV_NSAMPLES\<close> is twice the number of channels, that is 2 or 4,
  hence not zero, and \<open>WAV_NSAMPLES\<close> has a value.
\<close>

theorem compatible_divisor_nonzero:
  assumes "isCompatible h"
  shows "c_div (promote (bitsPerSample h)) 8 = Value 2 \<and>
         nsamples_divisor h = Value (2 * uint (NumOfChan h)) \<and>
         (nsamples_divisor h = Value 2 \<or> nsamples_divisor h = Value 4) \<and>
         nsamples_divisor h \<noteq> Value 0 \<and>
         is_Value (WAV_NSAMPLES h)"
proof -
  have b: "bitsPerSample h = 16" and n: "NumOfChan h = 1 \<or> NumOfChan h = 2"
    using assms by (simp_all add: compatible_fields)
  have d: "nsamples_divisor h = Value (2 * uint (NumOfChan h))"
    by (simp add: nsamples_divisor_value b)
  have q: "c_div (promote (bitsPerSample h)) 8 = Value 2"
    by (simp add: c_div_promote_8 b)
  have v: "is_Value (WAV_NSAMPLES h)"
    using n by (auto simp: WAV_NSAMPLES_cases b)
  from n d q v show ?thesis by auto
qed

theorem compatible_divisor_nonzero_witness:
  "isCompatible (pcm_header 2 16 4000) \<and> nsamples_divisor (pcm_header 2 16 4000) = Value 4 \<and>
   isCompatible (pcm_header 1 16 4000) \<and> nsamples_divisor (pcm_header 1 16 4000) = Value 2 \<and>
   is_Value (WAV_NSAMPLES (pcm_header 2 16 4000))"
  using compatible_divisor_nonzero [of "pcm_header 2 16 4000"]
    compatible_divisor_nonzero [of "pcm_header 1 16 4000"]
  by (simp add: compatible_fields pcm_header_fields ascii4_def)

text \<open>
  C10: two headers that agree on \<open>AudioFormat\<close>, \<open>NumOfChan\<close>, \<open>SamplesPerSec\<close>,
  \<open>bitsPerSample\<close> and bytes 0 and 3 of \<open>Subchunk2ID\<close> get the same answer from the
  compatibility test, whatever their container tags, sizes, byte rate, block alignment
  and bytes 1 and 2 of \<open>Subchunk2ID\<close> are; so a header with a corrupt container magic can
  pass the test.
\<close>

theorem isCompatible_agree:
  assumes "AudioFormat h1 = AudioFormat h2" and "NumOfChan h1 = NumOfChan h2"
    and "SamplesPerSec h1 = SamplesPerSec h2" and "bitsPerSample h1 = bitsPerSample h2"
    and "at0 (Subchunk2ID h1) = at0 (Subchunk2ID h2)"
    and "at3 (Subchunk2ID h1) = at3 (Subchunk2ID h2)"
  shows "isCompatible h1 = isCompatible h2 \<and> TEST_WAV_COMPAT h1 = TEST_WAV_COMPAT h2"
  using assms by (simp add: TEST_WAV_COMPAT_value compatible_fields)

theorem isCompatible_agree_witness:
  "RIFF corrupt_header \<noteq> ascii4 CHR ''R'' CHR ''I'' CHR ''F'' CHR ''F'' \<and>
   WAVE corrupt_header \<noteq> ascii4 CHR ''W'' CHR ''A'' CHR ''V'' CHR ''E'' \<and>
   isCompatible (pcm_header 1 16 4000) \<and>
   isCompatible corrupt_header"
proof -
  have "isCompatible (pcm_header 1 16 4000)"
    by (simp add: compatible_fields pcm_header_fields ascii4_def)
  moreover have "isCompatible (pcm_header 1 16 4000) = isCompatible corrupt_header \<and>
      TEST_WAV_COMPAT (pcm_header 1 16 4000) = TEST_WAV_COMPAT corrupt_header"
    by (rule isCompatible_agree) (simp_all add: pcm_header_fields corrupt_header_def ascii4_def)
  ultimately show ?thesis
    by (simp add: pcm_header_def corrupt_header_def ascii4_def)
qed

end
